theory Spec2Isabelle
  imports Main
begin

section \<open>Values of the host language\<close>

text \<open>
  The fields of the form hold \<open>string | null\<close>; the schema validator also knows an absent
  value. A character of a \<open>string\<close> stands for one code unit of a JavaScript string, so
  \<open>length\<close> is the \<open>.length\<close> of the source.
\<close>

datatype jsvalue = Undefined | Null | Str string

text \<open>The truthiness test of \<open>if (value)\<close> on such a value.\<close>

fun truthy :: "jsvalue \<Rightarrow> bool" where
  "truthy Undefined = False"
| "truthy Null = False"
| "truthy (Str s) = (s \<noteq> [])"

fun js_of :: "string option \<Rightarrow> jsvalue" where
  "js_of None = Null"
| "js_of (Some s) = Str s"

text \<open>
  A number as \<open>parseInt\<close> returns it: an integer or \<open>NaN\<close>. Every comparison with
  \<open>NaN\<close> is false.
\<close>

datatype jsnumber = NaN | Num int

fun gt :: "jsnumber \<Rightarrow> int \<Rightarrow> bool" where
  "gt NaN b = False"
| "gt (Num a) b = (a > b)"

fun lt :: "jsnumber \<Rightarrow> int \<Rightarrow> bool" where
  "lt NaN b = False"
| "lt (Num a) b = (a < b)"

fun isNaN :: "jsnumber \<Rightarrow> bool" where
  "isNaN NaN = True"
| "isNaN (Num a) = False"

text \<open>\<open>Array.prototype.join\<close> on an array of strings.\<close>

fun join :: "string \<Rightarrow> string list \<Rightarrow> string" where
  "join sep [] = []"
| "join sep [x] = x"
| "join sep (x # y # ys) = x @ sep @ join sep (y # ys)"

section \<open>The collaborators the component imports\<close>

text \<open>
  The card utility (\<open>creditcardutils\<close>) is an external library: its six functions are
  parameters of the model. \<open>parseCardType\<close> answers a brand name or \<open>null\<close>.
\<close>

record expiry =
  month :: jsnumber
  year :: jsnumber

record card_utility =
  validateCardNumber :: "string \<Rightarrow> bool"
  formatCardNumber :: "string \<Rightarrow> string"
  formatCardExpiry :: "string \<Rightarrow> string"
  parseCardType :: "string \<Rightarrow> string option"
  parseCardExpiry :: "string \<Rightarrow> expiry"
  validateCardCVC :: "string \<Rightarrow> string option \<Rightarrow> bool"

text \<open>
  What \<open>new Date()\<close> answers when a predicate runs: \<open>getMonth\<close> counts from 0.
\<close>

record date =
  getMonth :: int
  getFullYear :: int

text \<open>
  Two tables of the schema library stay parameters: its built-in list of top-level domains,
  which the email rule consults when \<open>tlds.allow\<close> is on, and the text it gives an error
  code the schema has no message for (from the field's label and the code).
\<close>

record joi =
  tldList :: "string list"
  defaultMessage :: "string \<Rightarrow> string \<Rightarrow> string"

section \<open>The data of the component\<close>

record field_values =
  email :: "string option"
  card_number :: "string option"
  card_expire :: "string option"
  cvv :: "string option"
  card_type :: "string option"

datatype key = K_email | K_card_number | K_card_expire | K_cvv | K_card_type

definition defaultState :: field_values where
  "defaultState =
     \<lparr>email = None, card_number = None, card_expire = None, cvv = None, card_type = None\<rparr>"

text \<open>An entry of the validator's error list; the component reads its \<open>$message\<close>.\<close>

record error_item =
  error_type :: string
  message :: string

text \<open>The part of the validator's state the component reads: \<open>$data\<close>, \<open>$errors\<close>,
  \<open>$auto_invalid\<close>.\<close>

record validator_state =
  data :: field_values
  errors :: "key \<Rightarrow> error_item list"
  auto_invalid :: bool

text \<open>
  A mounted component: the binder's \<open>models\<close>, the validator's \<open>state\<close> and the optional
  properties \<open>loading\<close> and \<open>submitText\<close> (\<open>None\<close> when the caller leaves one out).
\<close>

record component =
  models :: field_values
  state :: validator_state
  loading :: "bool option"
  submitText :: "string option"

section \<open>The schema\<close>

text \<open>
  A field's schema as the source declares it: the rules in the order of the method chain,
  the \<open>required()\<close> flag and the \<open>messages\<close> table. A custom predicate answers an error code
  (\<open>helpers.error\<close>) or the value it returns.
\<close>

datatype rule = Custom "jsvalue \<Rightarrow> string + jsvalue" | Length nat | Email bool

record schema =
  rules :: "rule list"
  required :: bool
  messages :: "(string \<times> string) list"

text \<open>The predicate of \<open>card_number\<close>; \<open>m\<close> is the binder's \<open>models\<close> of the render.\<close>

definition card_number_custom :: "card_utility \<Rightarrow> field_values \<Rightarrow> jsvalue \<Rightarrow> string + jsvalue" where
  "card_number_custom cu m v =
     (case v of
        Str s \<Rightarrow>
          if truthy v then
            if \<not> validateCardNumber cu s then Inl ''string.cardNumber''
            else if card_type m = None then Inl ''string.cardType''
            else Inr v
          else Inr v
      | _ \<Rightarrow> Inr v)"

text \<open>The predicate of \<open>card_expire\<close>.\<close>

definition card_expire_custom :: "card_utility \<Rightarrow> date \<Rightarrow> jsvalue \<Rightarrow> string + jsvalue" where
  "card_expire_custom cu now v =
     (case v of
        Str s \<Rightarrow>
          if truthy v then
            let my = parseCardExpiry cu s in
              if gt (month my) 12 \<or> lt (month my) (getMonth now + 1) then Inl ''string.month''
              else if isNaN (year my) \<or> lt (year my) (getFullYear now) then Inl ''string.year''
              else Inr v
          else Inr v
      | _ \<Rightarrow> Inr v)"


definition email_schema :: schema where
  "email_schema =
     \<lparr>rules = [Email False], required = True,
      messages = [(''string.empty'', ''Required''),
                  (''string.email'', ''Must be a valid email''),
                  (''any.required'', ''Required'')]\<rparr>"

definition card_number_schema :: "card_utility \<Rightarrow> field_values \<Rightarrow> schema" where
  "card_number_schema cu m =
     \<lparr>rules = [Custom (card_number_custom cu m)], required = True,
      messages = [(''string.empty'', ''Required''),
                  (''string.cardNumber'', ''Must be a valid card''),
                  (''string.cardType'', ''Must be a visa or master''),
                  (''any.required'', ''Required'')]\<rparr>"

definition card_expire_schema :: "card_utility \<Rightarrow> date \<Rightarrow> schema" where
  "card_expire_schema cu now =
     \<lparr>rules = [Custom (card_expire_custom cu now)], required = True,
      messages = [(''string.empty'', ''Required''),
                  (''string.month'', ''Invalid expire month''),
                  (''string.year'', ''Invalid expire year''),
                  (''any.required'', ''Required'')]\<rparr>"


section \<open>Evaluating a string schema\<close>

text \<open>
  Modelled from the spec: the email grammar of the schema library is not among the sources.
  The specification has it a standard email grammar whose top-level-domain allow-list check
  can be switched off, any suffix that looks like a top-level domain then being accepted.
  The model: an address of at most 254 characters with one \<open>@\<close>; before it a local part of
  at most 64 characters, made of non-empty segments between dots, of letters, digits and the
  punctuation of an address; after it a domain of at least two labels between dots, each of
  at most 63 letters, digits and inner hyphens, the last one starting with a letter; and,
  with the allow-list on, a last label that is on the list, whatever its case.
\<close>

fun split_on :: "char \<Rightarrow> string \<Rightarrow> string list" where
  "split_on sep [] = [[]]"
| "split_on sep (c # cs) =
     (if c = sep then [] # split_on sep cs
      else (case split_on sep cs of
              [] \<Rightarrow> [[c]]
            | piece # pieces \<Rightarrow> (c # piece) # pieces))"

definition code_unit :: "char \<Rightarrow> nat" where
  "code_unit c = of_char c"

definition letter :: "char \<Rightarrow> bool" where
  "letter c = (let n = code_unit c in (65 \<le> n \<and> n \<le> 90) \<or> (97 \<le> n \<and> n \<le> 122))"

definition digit :: "char \<Rightarrow> bool" where
  "digit c = (let n = code_unit c in 48 \<le> n \<and> n \<le> 57)"

definition atext :: "char \<Rightarrow> bool" where
  "atext c =
     (letter c \<or> digit c \<or>
      code_unit c \<in>
        {33, 35, 36, 37, 38, 39, 42, 43, 45, 47, 61, 63, 94, 95, 96, 123, 124, 125, 126})"

definition lower :: "char \<Rightarrow> nat" where
  "lower c = (let n = code_unit c in if 65 \<le> n \<and> n \<le> 90 then n + 32 else n)"

definition domain_label :: "string \<Rightarrow> bool" where
  "domain_label l =
     (case l of
        [] \<Rightarrow> False
      | c # cs \<Rightarrow>
          length l \<le> 63 \<and> (letter c \<or> digit c) \<and> (letter (last l) \<or> digit (last l)) \<and>
          list_all (\<lambda>x. letter x \<or> digit x \<or> x = CHR ''-'') l)"

definition tld_label :: "string \<Rightarrow> bool" where
  "tld_label l = (case l of [] \<Rightarrow> False | c # cs \<Rightarrow> letter c \<and> domain_label l)"

definition local_part :: "string \<Rightarrow> bool" where
  "local_part l =
     (l \<noteq> [] \<and> length l \<le> 64 \<and>
      list_all (\<lambda>seg. seg \<noteq> [] \<and> list_all atext seg) (split_on CHR ''.'' l))"

definition domain_part :: "string list \<Rightarrow> bool \<Rightarrow> string \<Rightarrow> bool" where
  "domain_part tlds allow d =
     (let labels = split_on CHR ''.'' d in
        d \<noteq> [] \<and> length d \<le> 256 \<and> 2 \<le> length labels \<and>
        (if allow then map lower (last labels) \<in> set (map (map lower) tlds) else True) \<and>
        list_all domain_label (butlast labels) \<and> tld_label (last labels))"

definition email_grammar :: "string list \<Rightarrow> bool \<Rightarrow> string \<Rightarrow> bool" where
  "email_grammar tlds allow s =
     (case split_on CHR ''@'' s of
        [l, d] \<Rightarrow> length s \<le> 254 \<and> local_part l \<and> domain_part tlds allow d
      | _ \<Rightarrow> False)"

text \<open>
  Modelled from the spec: the Schema Validator (the package behind \<open>useValidator\<close>, over
  the schema library) is not among the sources. The specification has it evaluate a
  field's declared rule set into a list of zero or more messages. The model: an absent value
  fails a required field with \<open>any.required\<close>; a value that is not a string fails the
  string type with \<open>string.base\<close> and the empty string with \<open>string.empty\<close>, before any
  rule; on a non-empty string the rules run in the declared order, each on the value the
  rules before it returned, and the first failure ends the field: the component passes no
  validation options, and the validator then stops at a field's first failure. A predicate
  that returns nothing leaves the value as it is.
\<close>

fun apply_rule :: "joi \<Rightarrow> rule \<Rightarrow> jsvalue \<Rightarrow> string + jsvalue" where
  "apply_rule j (Custom f) v =
     (case f v of Inl c \<Rightarrow> Inl c | Inr Undefined \<Rightarrow> Inr v | Inr w \<Rightarrow> Inr w)"
| "apply_rule j (Length n) v =
     (case v of
        Str s \<Rightarrow> if length s = n then Inr v else Inl ''string.length''
      | _ \<Rightarrow> Inl ''string.length'')"
| "apply_rule j (Email allow) v =
     (case v of
        Str s \<Rightarrow> if email_grammar (tldList j) allow s then Inr v else Inl ''string.email''
      | _ \<Rightarrow> Inl ''string.email'')"

fun run_rules :: "joi \<Rightarrow> rule list \<Rightarrow> jsvalue \<Rightarrow> string list" where
  "run_rules j [] v = []"
| "run_rules j (r # rs) v =
     (case apply_rule j r v of
        Inl c \<Rightarrow> [c]
      | Inr w \<Rightarrow> run_rules j rs w)"

definition error_codes :: "joi \<Rightarrow> schema \<Rightarrow> jsvalue \<Rightarrow> string list" where
  "error_codes j sch v =
     (case v of
        Undefined \<Rightarrow> if required sch then [''any.required''] else []
      | Null \<Rightarrow> [''string.base'']
      | Str s \<Rightarrow> if s = [] then [''string.empty''] else run_rules j (rules sch) v)"

definition render :: "joi \<Rightarrow> schema \<Rightarrow> string \<Rightarrow> string \<Rightarrow> error_item" where
  "render j sch label c =
     \<lparr>error_type = c,
      message = (case map_of (messages sch) c of
                   Some t \<Rightarrow> t
                 | None \<Rightarrow> defaultMessage j label c)\<rparr>"

definition validate :: "joi \<Rightarrow> schema \<Rightarrow> string \<Rightarrow> jsvalue \<Rightarrow> error_item list" where
  "validate j sch label v = map (render j sch label) (error_codes j sch v)"

text \<open>The four fields of \<open>Joi.object\<close>, each under its key.\<close>

definition email_errors :: "joi \<Rightarrow> jsvalue \<Rightarrow> error_item list" where
  "email_errors j v = validate j email_schema ''email'' v"

definition card_number_errors :: "joi \<Rightarrow> card_utility \<Rightarrow> field_values \<Rightarrow> jsvalue \<Rightarrow> error_item list" where
  "card_number_errors j cu m v = validate j (card_number_schema cu m) ''card_number'' v"

definition card_expire_errors :: "joi \<Rightarrow> card_utility \<Rightarrow> date \<Rightarrow> jsvalue \<Rightarrow> error_item list" where
  "card_expire_errors j cu now v = validate j (card_expire_schema cu now) ''card_expire'' v"


section \<open>The component's own functions\<close>

text \<open>\<open>getErrors\<close>: the messages of a field's errors, joined by a comma.\<close>

definition getErrors :: "validator_state \<Rightarrow> key \<Rightarrow> string" where
  "getErrors st field = join '','' (map message (errors st field))"

text \<open>
  \<open>onSubmit\<close> has two effects, in this order: \<open>e.preventDefault()\<close> and the call of the
  caller's \<open>onSuccess\<close>. The model returns them as a trace.
\<close>

datatype effect = PreventDefault | OnSuccess field_values

definition onSubmit :: "component \<Rightarrow> effect list" where
  "onSubmit c = [PreventDefault, OnSuccess (data (state c))]"

text \<open>The \<open>disabled\<close> property of the pay button; \<open>loading\<close> defaults to \<open>false\<close>.\<close>

definition loading_value :: "component \<Rightarrow> bool" where
  "loading_value c = (case loading c of None \<Rightarrow> False | Some b \<Rightarrow> b)"

definition disabled :: "component \<Rightarrow> bool" where
  "disabled c = (auto_invalid (state c) \<or> loading_value c)"

text \<open>
  Modelled from the spec: the Form-State Binder (the package behind \<open>useModels\<close>) is not
  among the sources. The specification has it hold the current field values and connect an
  input to the value store: \<open>updateModel\<close> writes one field and leaves the others, and an
  input registered without a handler of its own stores the text typed into it.
\<close>

fun updateModel :: "key \<Rightarrow> string option \<Rightarrow> field_values \<Rightarrow> field_values" where
  "updateModel K_email x m = m\<lparr>email := x\<rparr>"
| "updateModel K_card_number x m = m\<lparr>card_number := x\<rparr>"
| "updateModel K_card_expire x m = m\<lparr>card_expire := x\<rparr>"
| "updateModel K_cvv x m = m\<lparr>cvv := x\<rparr>"
| "updateModel K_card_type x m = m\<lparr>card_type := x\<rparr>"

definition register_input :: "key \<Rightarrow> string \<Rightarrow> field_values \<Rightarrow> field_values" where
  "register_input name raw m = updateModel name (Some raw) m"

text \<open>\<open>formatter.cardNumber\<close> and \<open>formatter.cardExpire\<close>; \<open>raw\<close> is \<open>e.target.value\<close>.\<close>

definition cardNumber :: "card_utility \<Rightarrow> string \<Rightarrow> field_values \<Rightarrow> field_values" where
  "cardNumber cu raw m =
     (let value = formatCardNumber cu raw;
          pct = parseCardType cu value;
          cardType = (if pct = Some ''visa'' then Some ''visa''
                      else if pct = Some ''mastercard'' then Some ''mastercard''
                      else None)
      in updateModel K_card_number (Some value) (updateModel K_card_type cardType m))"

definition cardExpire :: "card_utility \<Rightarrow> string \<Rightarrow> field_values \<Rightarrow> field_values" where
  "cardExpire cu raw m = updateModel K_card_expire (Some (formatCardExpiry cu raw)) m"

text \<open>
  The four inputs the component renders, and what a change of each does to the models:
  the card number and the expiry go through the formatter, the email and the CVV through
  the binder. A session is the list of changes since the mount.
\<close>

datatype change =
  EmailChange string | CardNumberChange string | CardExpireChange string | CvvChange string

fun on_change :: "card_utility \<Rightarrow> change \<Rightarrow> field_values \<Rightarrow> field_values" where
  "on_change cu (EmailChange raw) m = register_input K_email raw m"
| "on_change cu (CardNumberChange raw) m = cardNumber cu raw m"
| "on_change cu (CardExpireChange raw) m = cardExpire cu raw m"
| "on_change cu (CvvChange raw) m = register_input K_cvv raw m"

definition after_changes :: "card_utility \<Rightarrow> change list \<Rightarrow> field_values" where
  "after_changes cu cs = foldl (\<lambda>m c. on_change cu c m) defaultState cs"

section \<open>What the specification's words say\<close>

text \<open>Comma concatenation: the messages in order, a comma before each but the first.\<close>

definition comma_concatenation :: "string list \<Rightarrow> string" where
  "comma_concatenation ms =
     (case ms of [] \<Rightarrow> [] | x # rest \<Rightarrow> x @ concat (map (\<lambda>y. CHR '','' # y) rest))"

text \<open>
  The brand a card number's type stands for: \<open>visa\<close> and \<open>mastercard\<close> are recognised,
  anything else is no brand. The brand of the models is consistent when it is the one of the
  stored card number, and no brand while no number is stored.
\<close>

definition recognised :: "string option \<Rightarrow> string option" where
  "recognised pct = (if pct = Some ''visa'' \<or> pct = Some ''mastercard'' then pct else None)"

definition brand_consistent :: "card_utility \<Rightarrow> field_values \<Rightarrow> bool" where
  "brand_consistent cu m =
     (case card_number m of
        None \<Rightarrow> card_type m = None
      | Some n \<Rightarrow> card_type m = recognised (parseCardType cu n))"

section \<open>Stand-ins for the examples\<close>

text \<open>
  Instances of the parameters, to run the theorems on concrete inputs. The stand-in card
  utility knows three test numbers, reads a brand from the first digit, parses an expiry
  of two digits, a separator and two digits into the years of this century, and takes
  three or four digits as a CVC. The stand-in schema library lists three top-level domains
  and words the string type error as the library does. The stand-in date is a day of
  November 2026.
\<close>

definition digit_value :: "char \<Rightarrow> int option" where
  "digit_value c =
     (let n = (of_char c :: nat) in if 48 \<le> n \<and> n \<le> 57 then Some (int n - 48) else None)"

definition two_digits :: "string \<Rightarrow> jsnumber" where
  "two_digits s =
     (case s of
        [a, b] \<Rightarrow>
          (case (digit_value a, digit_value b) of
             (Some x, Some y) \<Rightarrow> Num (10 * x + y)
           | _ \<Rightarrow> NaN)
      | _ \<Rightarrow> NaN)"

definition demo_parseCardExpiry :: "string \<Rightarrow> expiry" where
  "demo_parseCardExpiry s =
     (let t = filter (\<lambda>c. c \<noteq> CHR '' '') s;
          y = two_digits (drop 3 t)
      in \<lparr>month = two_digits (take 2 t),
          year = (case y of NaN \<Rightarrow> NaN | Num n \<Rightarrow> Num (2000 + n))\<rparr>)"

definition demo_parseCardType :: "string \<Rightarrow> string option" where
  "demo_parseCardType s =
     (case s of
        [] \<Rightarrow> None
      | c # _ \<Rightarrow>
          if c = CHR ''4'' then Some ''visa''
          else if c = CHR ''5'' then Some ''mastercard''
          else if c = CHR ''3'' then Some ''amex''
          else None)"

definition demo_utility :: card_utility where
  "demo_utility =
     \<lparr>validateCardNumber =
        (\<lambda>s. filter (\<lambda>c. c \<noteq> CHR '' '') s \<in>
           {''4242424242424242'', ''5555555555554444'', ''378282246310005''}),
      formatCardNumber =
        (\<lambda>s. if s = ''4242424242424242'' then ''4242 4242 4242 4242''
             else if s = ''5555555555554444'' then ''5555 5555 5555 4444''
             else s),
      formatCardExpiry = (\<lambda>s. s),
      parseCardType = demo_parseCardType,
      parseCardExpiry = demo_parseCardExpiry,
      validateCardCVC =
        (\<lambda>s t. (length s = 3 \<or> length s = 4) \<and> list_all (\<lambda>c. digit_value c \<noteq> None) s)\<rparr>"

definition demo_joi :: joi where
  "demo_joi =
     \<lparr>tldList = [''com'', ''org'', ''net''],
      defaultMessage =
        (\<lambda>label c. if c = ''string.base'' then label @ '' must be a string''
                    else label @ '' is invalid'')\<rparr>"

definition demo_now :: date where
  "demo_now = \<lparr>getMonth = 10, getFullYear = 2026\<rparr>"

text \<open>
  A validator state whose data lag the models by one keystroke, with two errors on the CVV,
  and a component around it.
\<close>

definition demo_state :: validator_state where
  "demo_state =
     \<lparr>data = defaultState\<lparr>cvv := Some ''12''\<rparr>,
      errors = (\<lambda>k. if k = K_cvv
                     then [\<lparr>error_type = ''string.invalid'', message = ''Invalid cvc''\<rparr>,
                           \<lparr>error_type = ''string.length'', message = ''Maximum 3 digits''\<rparr>]
                     else []),
      auto_invalid = True\<rparr>"

definition demo_component :: component where
  "demo_component =
     \<lparr>models = defaultState\<lparr>cvv := Some ''123''\<rparr>, state = demo_state,
      loading = None, submitText = None\<rparr>"

section \<open>What a field's schema answers on a string\<close>

lemma error_codes_Str:
  "error_codes j sch (Str s) =
     (if s = [] then [''string.empty''] else run_rules j (rules sch) (Str s))"
  by (simp add: error_codes_def)

lemma error_codes_Undefined:
  "error_codes j sch Undefined = (if required sch then [''any.required''] else [])"
  by (simp add: error_codes_def)


lemma card_number_errors_Str:
  "card_number_errors j cu m (Str s) =
     (if s = [] then [\<lparr>error_type = ''string.empty'', message = ''Required''\<rparr>]
      else if \<not> validateCardNumber cu s
        then [\<lparr>error_type = ''string.cardNumber'', message = ''Must be a valid card''\<rparr>]
      else if card_type m = None
        then [\<lparr>error_type = ''string.cardType'', message = ''Must be a visa or master''\<rparr>]
      else [])"
  by (simp add: card_number_errors_def validate_def error_codes_Str card_number_schema_def
      card_number_custom_def render_def)

lemma card_expire_errors_Str:
  "card_expire_errors j cu now (Str s) =
     (if s = [] then [\<lparr>error_type = ''string.empty'', message = ''Required''\<rparr>]
      else if gt (month (parseCardExpiry cu s)) 12 \<or>
              lt (month (parseCardExpiry cu s)) (getMonth now + 1)
        then [\<lparr>error_type = ''string.month'', message = ''Invalid expire month''\<rparr>]
      else if isNaN (year (parseCardExpiry cu s)) \<or>
              lt (year (parseCardExpiry cu s)) (getFullYear now)
        then [\<lparr>error_type = ''string.year'', message = ''Invalid expire year''\<rparr>]
      else [])"
  by (simp add: card_expire_errors_def validate_def error_codes_Str card_expire_schema_def
      card_expire_custom_def render_def Let_def)


lemma email_errors_Str:
  "email_errors j (Str s) =
     (if s = [] then [\<lparr>error_type = ''string.empty'', message = ''Required''\<rparr>]
      else if email_grammar (tldList j) False s then []
      else [\<lparr>error_type = ''string.email'', message = ''Must be a valid email''\<rparr>])"
  by (simp add: email_errors_def validate_def error_codes_Str email_schema_def render_def)


lemma email_grammar_no_list:
  "email_grammar tlds False s = email_grammar tlds' False s"
  by (simp add: email_grammar_def domain_part_def split: list.splits)

lemma email_grammar_not_an_email: "\<not> email_grammar tlds allow ''not-an-email''"
  by (simp add: email_grammar_def)

lemma email_grammar_anytld: "email_grammar tlds False ''user@example.anytld''"
  by (simp add: email_grammar_def local_part_def domain_part_def domain_label_def tld_label_def
      atext_def letter_def digit_def code_unit_def)

section \<open>The card number\<close>

text \<open>
  C1. A non-empty card number is accepted exactly when the card utility's number check
  passes and the brand in the models is not null. When the number check fails the one
  message is \<open>Must be a valid card\<close>; when it passes and the brand is null the one message
  is \<open>Must be a visa or master\<close>. The empty string and an absent value get \<open>Required\<close>.
\<close>

theorem card_number_validation:
  "(s \<noteq> [] \<longrightarrow>
      ((card_number_errors j cu m (Str s) = []) =
         (validateCardNumber cu s \<and> card_type m \<noteq> None)) \<and>
      (\<not> validateCardNumber cu s \<longrightarrow>
         map message (card_number_errors j cu m (Str s)) = [''Must be a valid card'']) \<and>
      (validateCardNumber cu s \<and> card_type m = None \<longrightarrow>
         map message (card_number_errors j cu m (Str s)) = [''Must be a visa or master''])) \<and>
   map message (card_number_errors j cu m (Str [])) = [''Required''] \<and>
   map message (card_number_errors j cu m Undefined) = [''Required'']"
  by (simp add: card_number_errors_Str)
    (simp add: card_number_errors_def validate_def error_codes_Undefined
      card_number_schema_def render_def)

text \<open>
  On the stand-ins: a number that fails the check, then a valid American Express number (no
  brand of the form) and a valid Visa number, each as its own change handler stores it, with
  the models the handler leaves.
\<close>

theorem card_number_validation_witness:
  "map message (card_number_errors demo_joi demo_utility defaultState
       (Str ''4242 4242 4242 4241'')) = [''Must be a valid card''] \<and>
   map message (card_number_errors demo_joi demo_utility
       (cardNumber demo_utility ''378282246310005'' defaultState)
       (js_of (card_number (cardNumber demo_utility ''378282246310005'' defaultState)))) =
     [''Must be a visa or master''] \<and>
   card_number_errors demo_joi demo_utility
       (cardNumber demo_utility ''4242424242424242'' defaultState)
       (js_of (card_number (cardNumber demo_utility ''4242424242424242'' defaultState))) = [] \<and>
   map message (card_number_errors demo_joi demo_utility defaultState (Str [])) = [''Required'']"
  using card_number_validation [of "''4242 4242 4242 4241''" demo_joi demo_utility defaultState]
    card_number_validation [of "''378282246310005''" demo_joi demo_utility
      "cardNumber demo_utility ''378282246310005'' defaultState"]
    card_number_validation [of "''4242 4242 4242 4242''" demo_joi demo_utility
      "cardNumber demo_utility ''4242424242424242'' defaultState"]
  by (simp add: demo_utility_def demo_parseCardType_def cardNumber_def defaultState_def)

section \<open>The expiry\<close>

text \<open>
  C2. A non-empty expiry is parsed into month and year. It is rejected with
  \<open>Invalid expire month\<close> when the month is above 12 or below the current month. When the
  month check passes, it is rejected with \<open>Invalid expire year\<close> when the year is not a
  number or below the current year. It is accepted exactly when both checks pass. An
  expiry parsed to month 13, such as \<open>13/30\<close>, gets the month message.
\<close>

theorem card_expire_validation:
  "s \<noteq> [] \<longrightarrow>
     (gt (month (parseCardExpiry cu s)) 12 \<or>
      lt (month (parseCardExpiry cu s)) (getMonth now + 1) \<longrightarrow>
        map message (card_expire_errors j cu now (Str s)) = [''Invalid expire month'']) \<and>
     (\<not> gt (month (parseCardExpiry cu s)) 12 \<and>
      \<not> lt (month (parseCardExpiry cu s)) (getMonth now + 1) \<and>
      (isNaN (year (parseCardExpiry cu s)) \<or>
       lt (year (parseCardExpiry cu s)) (getFullYear now)) \<longrightarrow>
        map message (card_expire_errors j cu now (Str s)) = [''Invalid expire year'']) \<and>
     ((card_expire_errors j cu now (Str s) = []) =
        (\<not> gt (month (parseCardExpiry cu s)) 12 \<and>
         \<not> lt (month (parseCardExpiry cu s)) (getMonth now + 1) \<and>
         \<not> isNaN (year (parseCardExpiry cu s)) \<and>
         \<not> lt (year (parseCardExpiry cu s)) (getFullYear now))) \<and>
     (month (parseCardExpiry cu s) = Num 13 \<longrightarrow>
        map message (card_expire_errors j cu now (Str s)) = [''Invalid expire month''])"
  by (auto simp add: card_expire_errors_Str)

text \<open>In November 2026: month 13, a month gone by, a year gone by, no year, and this month.\<close>

theorem card_expire_validation_witness:
  "month (parseCardExpiry demo_utility ''13/30'') = Num 13 \<and>
   map message (card_expire_errors demo_joi demo_utility demo_now (Str ''13/30'')) =
     [''Invalid expire month''] \<and>
   map message (card_expire_errors demo_joi demo_utility demo_now (Str ''10 / 27'')) =
     [''Invalid expire month''] \<and>
   map message (card_expire_errors demo_joi demo_utility demo_now (Str ''12 / 25'')) =
     [''Invalid expire year''] \<and>
   map message (card_expire_errors demo_joi demo_utility demo_now (Str ''12 / '')) =
     [''Invalid expire year''] \<and>
   card_expire_errors demo_joi demo_utility demo_now (Str ''11 / 26'') = []"
  using card_expire_validation [of "''13/30''" demo_utility demo_now demo_joi]
    card_expire_validation [of "''10 / 27''" demo_utility demo_now demo_joi]
    card_expire_validation [of "''12 / 25''" demo_utility demo_now demo_joi]
    card_expire_validation [of "''12 / ''" demo_utility demo_now demo_joi]
    card_expire_validation [of "''11 / 26''" demo_utility demo_now demo_joi]
  by (simp add: demo_utility_def demo_parseCardExpiry_def two_digits_def digit_value_def
      demo_now_def)

text \<open>
  The year message is not what every expiry with a bad year gets: the predicate returns at
  the month check, so month 13 of the year 2020 gets the month message alone.
\<close>

theorem card_expire_year_message_counterexample:
  "''13 / 20'' \<noteq> [] \<and>
   lt (year (parseCardExpiry demo_utility ''13 / 20'')) (getFullYear demo_now) \<and>
   map message (card_expire_errors demo_joi demo_utility demo_now (Str ''13 / 20'')) =
     [''Invalid expire month''] \<and>
   map message (card_expire_errors demo_joi demo_utility demo_now (Str ''13 / 20'')) \<noteq>
     [''Invalid expire year'']"
  by (simp add: card_expire_errors_Str demo_utility_def demo_parseCardExpiry_def
      two_digits_def digit_value_def demo_now_def)

text \<open>
  C3. A non-empty expiry whose month is below the current month and whose year is above the
  current year is rejected, with \<open>Invalid expire month\<close>: the month check looks at the
  current month alone and returns before the year is read.
\<close>

theorem past_month_future_year_rejected:
  "s \<noteq> [] \<Longrightarrow>
   lt (month (parseCardExpiry cu s)) (getMonth now + 1) \<Longrightarrow>
   gt (year (parseCardExpiry cu s)) (getFullYear now) \<Longrightarrow>
   card_expire_errors j cu now (Str s) =
     [\<lparr>error_type = ''string.month'', message = ''Invalid expire month''\<rparr>]"
  by (simp add: card_expire_errors_Str)

text \<open>March 2028, seen from November 2026.\<close>

theorem past_month_future_year_rejected_witness:
  "lt (month (parseCardExpiry demo_utility ''03 / 28'')) (getMonth demo_now + 1) \<and>
   gt (year (parseCardExpiry demo_utility ''03 / 28'')) (getFullYear demo_now) \<and>
   card_expire_errors demo_joi demo_utility demo_now (Str ''03 / 28'') =
     [\<lparr>error_type = ''string.month'', message = ''Invalid expire month''\<rparr>]"
proof -
  have nonempty: "''03 / 28'' \<noteq> []" by simp
  have m: "lt (month (parseCardExpiry demo_utility ''03 / 28'')) (getMonth demo_now + 1)"
    by (simp add: demo_utility_def demo_parseCardExpiry_def two_digits_def digit_value_def
        demo_now_def)
  have y: "gt (year (parseCardExpiry demo_utility ''03 / 28'')) (getFullYear demo_now)"
    by (simp add: demo_utility_def demo_parseCardExpiry_def two_digits_def digit_value_def
        demo_now_def)
  from past_month_future_year_rejected [OF nonempty m y, of demo_joi] m y
  show ?thesis by simp
qed

text \<open>Such an expiry is not accepted: January 2030, seen from November 2026.\<close>

theorem past_month_future_year_counterexample:
  "lt (month (parseCardExpiry demo_utility ''01 / 30'')) (getMonth demo_now + 1) \<and>
   gt (year (parseCardExpiry demo_utility ''01 / 30'')) (getFullYear demo_now) \<and>
   card_expire_errors demo_joi demo_utility demo_now (Str ''01 / 30'') \<noteq> []"
  by (simp add: card_expire_errors_Str demo_utility_def demo_parseCardExpiry_def
      two_digits_def digit_value_def demo_now_def)

section \<open>The CVV\<close>




section \<open>The email\<close>

text \<open>
  C6. The email is required: an absent value and the empty string get \<open>Required\<close>. A
  non-empty email is accepted exactly when it matches the email grammar with the
  top-level-domain allow-list switched off, and gets \<open>Must be a valid email\<close> otherwise;
  the library's list of top-level domains has no say. So \<open>not-an-email\<close> gets
  \<open>Must be a valid email\<close>, and \<open>user@example.anytld\<close> has no error.
\<close>

theorem email_validation:
  "map message (email_errors j Undefined) = [''Required''] \<and>
   map message (email_errors j (Str [])) = [''Required''] \<and>
   (s \<noteq> [] \<longrightarrow>
      ((email_errors j (Str s) = []) = email_grammar (tldList j) False s) \<and>
      (\<not> email_grammar (tldList j) False s \<longrightarrow>
         map message (email_errors j (Str s)) = [''Must be a valid email''])) \<and>
   email_errors (j\<lparr>tldList := tlds\<rparr>) (Str s) = email_errors j (Str s) \<and>
   map message (email_errors j (Str ''not-an-email'')) = [''Must be a valid email''] \<and>
   email_errors j (Str ''user@example.anytld'') = []"
proof -
  have list: "email_grammar tlds False s = email_grammar (tldList j) False s"
    by (rule email_grammar_no_list)
  have refused: "\<not> email_grammar (tldList j) False ''not-an-email''"
    by (rule email_grammar_not_an_email)
  have accepted: "email_grammar (tldList j) False ''user@example.anytld''"
    by (rule email_grammar_anytld)
  have absent: "map message (email_errors j Undefined) = [''Required'']"
    by (simp add: email_errors_def validate_def error_codes_Undefined email_schema_def
        render_def)
  from list refused accepted absent show ?thesis
    by (simp add: email_errors_Str)
qed

text \<open>
  With a list of \<open>com\<close>, \<open>org\<close> and \<open>net\<close>: the two addresses, an address with a single
  domain label, and what the grammar would say of \<open>anytld\<close> were the allow-list on.
\<close>

theorem email_validation_witness:
  "map message (email_errors demo_joi (Str ''not-an-email'')) = [''Must be a valid email''] \<and>
   email_errors demo_joi (Str ''user@example.anytld'') = [] \<and>
   \<not> email_grammar (tldList demo_joi) True ''user@example.anytld'' \<and>
   \<not> email_grammar (tldList demo_joi) False ''user@example'' \<and>
   map message (email_errors demo_joi (Str ''user@example'')) = [''Must be a valid email''] \<and>
   map message (email_errors demo_joi (Str [])) = [''Required'']"
  using email_validation [of demo_joi "''user@example''"]
  by (simp add: demo_joi_def email_grammar_def local_part_def domain_part_def
      domain_label_def tld_label_def atext_def letter_def digit_def code_unit_def lower_def)

section \<open>Values that are not truthy\<close>




section \<open>Messages, submission and the pay button\<close>

lemma join_Cons: "join '','' (x # xs) = x @ concat (map (\<lambda>y. CHR '','' # y) xs)"
  by (induction xs arbitrary: x) simp_all

lemma join_comma_concatenation: "join '','' ms = comma_concatenation ms"
  by (cases ms) (simp_all add: comma_concatenation_def join_Cons)

text \<open>
  C9. The string shown for a field is the comma concatenation of the messages of the
  field's errors, in their order; it is empty when the field has no error.
\<close>

theorem getErrors_comma_concatenation:
  "getErrors st field = comma_concatenation (map message (errors st field)) \<and>
   (errors st field = [] \<longrightarrow> getErrors st field = [])"
  by (simp add: getErrors_def join_comma_concatenation comma_concatenation_def)

theorem getErrors_comma_concatenation_witness:
  "getErrors demo_state K_cvv = ''Invalid cvc,Maximum 3 digits'' \<and>
   errors demo_state K_email = [] \<and> getErrors demo_state K_email = []"
  using getErrors_comma_concatenation [of demo_state K_cvv]
    getErrors_comma_concatenation [of demo_state K_email]
  by (simp add: demo_state_def comma_concatenation_def)

text \<open>
  C5. A submit event has exactly two effects, in this order: the default action of the
  event is prevented, and \<open>onSuccess\<close> is called, once, with the validator's data. Neither
  the validator's invalid flag nor the binder's models change that.
\<close>

theorem onSubmit_effects:
  "onSubmit c = [PreventDefault, OnSuccess (data (state c))] \<and>
   length (filter (\<lambda>e. e \<noteq> PreventDefault) (onSubmit c)) = 1 \<and>
   onSubmit (c\<lparr>state := (state c)\<lparr>auto_invalid := b\<rparr>\<rparr>) = onSubmit c \<and>
   onSubmit (c\<lparr>models := m\<rparr>) = onSubmit c"
  by (simp add: onSubmit_def)

text \<open>An invalid form whose models are ahead of the validator's data.\<close>

theorem onSubmit_effects_witness:
  "auto_invalid (state demo_component) \<and>
   models demo_component \<noteq> data (state demo_component) \<and>
   onSubmit demo_component = [PreventDefault, OnSuccess (defaultState\<lparr>cvv := Some ''12''\<rparr>)]"
  using onSubmit_effects [of demo_component]
  by (simp add: demo_component_def demo_state_def defaultState_def)

text \<open>
  C8. The pay button is disabled exactly when the validator's invalid flag is set or the
  caller passed \<open>loading\<close> as true; a caller that leaves \<open>loading\<close> out passes false.
\<close>

theorem disabled_flag:
  "disabled c = (auto_invalid (state c) \<or> loading c = Some True) \<and>
   disabled c = (auto_invalid (state c) \<or> loading_value c) \<and>
   (loading c = None \<longrightarrow> \<not> loading_value c)"
  by (simp add: disabled_def loading_value_def split: option.splits)

theorem disabled_flag_witness:
  "disabled demo_component \<and>
   \<not> disabled (demo_component\<lparr>state := demo_state\<lparr>auto_invalid := False\<rparr>\<rparr>) \<and>
   disabled (demo_component
     \<lparr>state := demo_state\<lparr>auto_invalid := False\<rparr>, loading := Some True\<rparr>) \<and>
   \<not> disabled (demo_component
     \<lparr>state := demo_state\<lparr>auto_invalid := False\<rparr>, loading := Some False\<rparr>)"
  using disabled_flag [of demo_component]
    disabled_flag [of "demo_component\<lparr>state := demo_state\<lparr>auto_invalid := False\<rparr>\<rparr>"]
    disabled_flag [of "demo_component
      \<lparr>state := demo_state\<lparr>auto_invalid := False\<rparr>, loading := Some True\<rparr>"]
    disabled_flag [of "demo_component
      \<lparr>state := demo_state\<lparr>auto_invalid := False\<rparr>, loading := Some False\<rparr>"]
  by (simp add: demo_component_def demo_state_def)

section \<open>The brand follows the card number\<close>

lemma recognised_range: "recognised pct \<in> {Some ''visa'', Some ''mastercard'', None}"
  by (simp add: recognised_def)

lemma cardNumber_fields:
  "cardNumber cu raw m =
     m\<lparr>card_type := recognised (parseCardType cu (formatCardNumber cu raw)),
       card_number := Some (formatCardNumber cu raw)\<rparr>"
  by (simp add: cardNumber_def recognised_def Let_def)

lemma brand_consistent_defaultState: "brand_consistent cu defaultState"
  by (simp add: brand_consistent_def defaultState_def)

text \<open>Every change keeps the brand consistent: only the card number's handler writes either.\<close>

lemma brand_consistent_on_change:
  "brand_consistent cu m \<Longrightarrow> brand_consistent cu (on_change cu c m)"
  by (cases c) (auto simp add: brand_consistent_def cardNumber_fields cardExpire_def
      register_input_def split: option.splits)

lemma brand_consistent_foldl:
  "brand_consistent cu m \<Longrightarrow> brand_consistent cu (foldl (\<lambda>m c. on_change cu c m) m cs)"
  by (induction cs arbitrary: m) (simp_all add: brand_consistent_on_change)

lemma brand_consistent_range:
  "brand_consistent cu m \<Longrightarrow> card_type m \<in> {Some ''visa'', Some ''mastercard'', None}"
  using recognised_range [of "parseCardType cu (the (card_number m))"]
  by (auto simp add: brand_consistent_def split: option.splits)

text \<open>
  C7. The card number's handler stores the formatted text as the card number and, as the
  brand, the type detected on the formatted text when that is \<open>visa\<close> or \<open>mastercard\<close> and
  null otherwise; it leaves the other fields. After any list of changes since the mount
  the brand is \<open>visa\<close>, \<open>mastercard\<close> or null, and it is the brand of the stored card
  number.
\<close>

theorem card_number_change_and_brand:
  "card_number (cardNumber cu raw m) = Some (formatCardNumber cu raw) \<and>
   card_type (cardNumber cu raw m) =
     (if parseCardType cu (formatCardNumber cu raw) = Some ''visa'' then Some ''visa''
      else if parseCardType cu (formatCardNumber cu raw) = Some ''mastercard''
        then Some ''mastercard''
      else None) \<and>
   email (cardNumber cu raw m) = email m \<and>
   card_expire (cardNumber cu raw m) = card_expire m \<and>
   cvv (cardNumber cu raw m) = cvv m \<and>
   card_type (after_changes cu cs) \<in> {Some ''visa'', Some ''mastercard'', None} \<and>
   brand_consistent cu (after_changes cu cs)"
proof -
  have inv: "brand_consistent cu (after_changes cu cs)"
    unfolding after_changes_def
    by (rule brand_consistent_foldl) (rule brand_consistent_defaultState)
  have handler: "card_type (cardNumber cu raw m) =
     (if parseCardType cu (formatCardNumber cu raw) = Some ''visa'' then Some ''visa''
      else if parseCardType cu (formatCardNumber cu raw) = Some ''mastercard''
        then Some ''mastercard''
      else None)"
    by (simp add: cardNumber_fields recognised_def)
  from inv brand_consistent_range [OF inv] handler show ?thesis
    by (simp add: cardNumber_fields)
qed

text \<open>A Visa number, then an American Express number, then a Mastercard number.\<close>

theorem card_number_change_and_brand_witness:
  "after_changes demo_utility
     [CardNumberChange ''4242424242424242'', CvvChange ''123'',
      CardNumberChange ''378282246310005'', EmailChange ''a@b.c'',
      CardNumberChange ''5555555555554444''] =
     \<lparr>email = Some ''a@b.c'', card_number = Some ''5555 5555 5555 4444'', card_expire = None,
      cvv = Some ''123'', card_type = Some ''mastercard''\<rparr> \<and>
   card_type (after_changes demo_utility
     [CardNumberChange ''4242424242424242'', CardNumberChange ''378282246310005'']) = None \<and>
   brand_consistent demo_utility (after_changes demo_utility
     [CardNumberChange ''4242424242424242'', CardNumberChange ''378282246310005'']) \<and>
   card_type (cardNumber demo_utility ''4242424242424242'' defaultState) = Some ''visa''"
  using card_number_change_and_brand [of demo_utility "''4242424242424242''" defaultState
      "[CardNumberChange ''4242424242424242'', CardNumberChange ''378282246310005'']"]
  by (simp add: after_changes_def cardNumber_def register_input_def demo_utility_def
      demo_parseCardType_def defaultState_def)

end
